theory Spec2Isabelle
  imports Complex_Main "HOL-Library.Word"
begin

unbundle bit_operations_syntax

section \<open>Errors raised by the engine and by the Python layer\<close>

text \<open>
  \<open>etl.py\<close> drives an external dataframe engine. Three kinds of exception can leave its
  functions: the engine's \<open>AnalysisException\<close> (a path that matches no file, a table
  or column name that does not resolve), Python's \<open>TypeError\<close> (an argument of
  the wrong Python type) and Python's \<open>KeyError\<close>. They become values.
\<close>

datatype error = AnalysisException string | TypeError string | KeyError string

section \<open>The two schemas (lines 28-38 and 48-67)\<close>

text \<open>
  Every field of both schemas is declared nullable (\<open>True\<close>), so every column is an
  \<open>option\<close>. \<open>StringType\<close> is \<open>string\<close>, \<open>IntegerType\<close> a 32-bit word,
  \<open>LongType\<close> a 64-bit word. \<open>DoubleType\<close> values are only ever carried and compared
  for equality by \<open>DISTINCT\<close>; their type is the parameter \<open>'d\<close>.
  Note that \<open>year\<close> is declared \<open>StringType\<close> (line 31).
\<close>

record 'd song_rec =
  song_id :: "string option"
  title :: "string option"
  year :: "string option"
  duration :: "'d option"
  artist_id :: "string option"
  artist_name :: "string option"
  artist_location :: "string option"
  artist_latitude :: "'d option"
  artist_longitude :: "'d option"

text \<open>The column \<open>length\<close> and the column \<open>method\<close> carry the suffix \<open>_col\<close>.\<close>

record 'd log_rec =
  artist :: "string option"
  auth :: "string option"
  firstName :: "string option"
  gender :: "string option"
  itemInSession :: "32 word option"
  lastName :: "string option"
  length_col :: "'d option"
  level :: "string option"
  location :: "string option"
  method_col :: "string option"
  page :: "string option"
  registration :: "'d option"
  sessionId :: "32 word option"
  song :: "string option"
  status :: "32 word option"
  ts :: "64 word option"
  userAgent :: "string option"
  userId :: "string option"

text \<open>
  A row of the log dataframe that the queries of \<open>process_log_data\<close> read: the schema
  columns, then the column \<open>timeStamp\<close> (line 71), then the column \<open>startTime\<close>
  (line 73). \<open>withColumn\<close> appends one column, so a row is a nested pair.
\<close>

type_synonym 'd log_ts_row = "'d log_rec \<times> string option"
type_synonym 'd log_row = "'d log_ts_row \<times> string option"

definition log_fields :: "'d log_row \<Rightarrow> 'd log_rec" where
  "log_fields r = fst (fst r)"

definition log_timeStamp :: "'d log_row \<Rightarrow> string option" where
  "log_timeStamp r = snd (fst r)"

definition log_startTime :: "'d log_row \<Rightarrow> string option" where
  "log_startTime r = snd r"

section \<open>Rows of the derived tables\<close>

text \<open>
  The select list of line 86-87 is \<open>song_id, title artist_id, year, duration\<close>: the
  backslash at the end of line 86 joins the two lines and no comma stands between
  \<open>title\<close> and \<open>artist_id\<close>, so the engine reads \<open>title AS artist_id\<close>. The
  result has four columns.
\<close>

record 'd songs_row =
  song_id :: "string option"
  artist_id :: "string option"
  year :: "string option"
  duration :: "'d option"

record 'd artists_row =
  artist_id :: "string option"
  artist_name :: "string option"
  artist_location :: "string option"
  artist_latitude :: "'d option"
  artist_longitude :: "'d option"

record users_row =
  userId :: "string option"
  firstName :: "string option"
  lastName :: "string option"
  gender :: "string option"
  level :: "string option"

record time_row =
  startTime :: "string option"
  hour :: "int option"
  day :: "int option"
  week :: "int option"
  month :: "int option"
  year :: "int option"
  weekday :: "int option"

record combined_row =
  userId :: "string option"
  level :: "string option"
  song_id :: "string option"
  artist_id :: "string option"
  sessionId :: "32 word option"
  location :: "string option"
  userAgent :: "string option"
  startTime :: "string option"

record songplays_row =
  startTime :: "string option"
  userId :: "string option"
  level :: "string option"
  song_id :: "string option"
  artist_id :: "string option"
  sessionId :: "32 word option"
  location :: "string option"
  userAgent :: "string option"
  year :: "int option"
  month :: "int option"

section \<open>The engine, the sources and the state\<close>

text \<open>
  What the engine computes and \<open>etl.py\<close> only names is a parameter: the cast of a
  string to an integer that the comparison \<open>year != 0\<close> of a string column with an
  integer literal inserts, the calendar functions of the time query, and the column
  function built by \<open>udf\<close> at line 70 (a floating-point division and a conversion to
  local civil time, with the default return type \<open>StringType\<close>), and the way the
  engine splits the rows of the fact query into partitions, which
  \<open>monotonically_increasing_id\<close> reads.
\<close>

record engine =
  cast_int :: "string \<Rightarrow> int option"
  sql_hour :: "string option \<Rightarrow> int option"
  sql_day :: "string option \<Rightarrow> int option"
  sql_weekofyear :: "string option \<Rightarrow> int option"
  sql_month :: "string option \<Rightarrow> int option"
  sql_year :: "string option \<Rightarrow> int option"
  sql_weekday :: "string option \<Rightarrow> int option"
  create_timestamp :: "64 word option \<Rightarrow> string option"
  partitioning :: "songplays_row list \<Rightarrow> songplays_row list list"

text \<open>
  \<open>spark.read.json(path, schema)\<close>: the rows under a path pattern, already coerced to
  the schema, or \<open>None\<close> when the pattern matches no path (the root or one of the
  three directory levels under it is missing); the engine then raises
  \<open>AnalysisException\<close> at the read. A pattern that matches directories holding no
  file is no error: the schema is given, and the read yields the empty list of rows.
\<close>

record 'd sources =
  song_json :: "string \<rightharpoonup> 'd song_rec list"
  log_json :: "string \<rightharpoonup> 'd log_rec list"

datatype 'd table =
    SongDF "'d song_rec list"
  | LogDF "'d log_row list"
  | SongsTable "'d songs_row list"
  | ArtistsTable "'d artists_row list"
  | UsersTable "users_row list"
  | TimeTable "time_row list"
  | CombinedTable "combined_row list"
  | SongplaysTable "(songplays_row \<times> 64 word) list"

text \<open>
  The state that the functions change: the temporary views of the session
  (\<open>createOrReplaceTempView\<close>) and the datasets under the output root, each with its
  partition columns (\<open>write.partitionBy(...).parquet(path, 'overwrite')\<close>).
\<close>

record 'd world =
  views :: "string \<rightharpoonup> 'd table"
  files :: "string \<rightharpoonup> string list \<times> 'd table"

definition createOrReplaceTempView :: "'d world \<Rightarrow> string \<Rightarrow> 'd table \<Rightarrow> 'd world" where
  "createOrReplaceTempView w name t = w\<lparr>views := (views w)(name \<mapsto> t)\<rparr>"

definition write_parquet ::
  "'d world \<Rightarrow> string \<Rightarrow> string list \<Rightarrow> 'd table \<Rightarrow> 'd world" where
  "write_parquet w path partition_cols t = w\<lparr>files := (files w)(path \<mapsto> (partition_cols, t))\<rparr>"

text \<open>\<open>os.path.join\<close> of two components (POSIX).\<close>

definition join :: "string \<Rightarrow> string \<Rightarrow> string" where
  "join a b =
     (if take 1 b = ''/'' then b
      else if a = [] \<or> last a = CHR ''/'' then a @ b
      else a @ ''/'' @ b)"

section \<open>Reading the catalog (lines 22-40)\<close>

definition create_song_dataframe :: "string \<Rightarrow> 'd sources \<Rightarrow> error + 'd song_rec list" where
  "create_song_dataframe input_data spark =
     (let song_data = input_data @ ''/song_data/*/*/*/'' in
      case song_json spark song_data of
        None \<Rightarrow> Inl (AnalysisException ''Path does not exist'')
      | Some song_df \<Rightarrow> Inr song_df)"

section \<open>The song and artist tables (lines 77-107)\<close>

text \<open>
  \<open>where year != 0\<close> compares the string column with an integer literal: the engine
  casts the string, and a row is kept only when the comparison is true (a null year,
  or a string the cast rejects, gives null and the row is dropped).
\<close>

definition year_ne_0 :: "engine \<Rightarrow> string option \<Rightarrow> bool" where
  "year_ne_0 eng y =
     (case y of
        None \<Rightarrow> False
      | Some s \<Rightarrow> (case cast_int eng s of None \<Rightarrow> False | Some n \<Rightarrow> n \<noteq> 0))"

definition songs_select :: "'d song_rec \<Rightarrow> 'd songs_row" where
  "songs_select s =
     \<lparr>songs_row.song_id = song_rec.song_id s,
      songs_row.artist_id = song_rec.title s,
      songs_row.year = song_rec.year s,
      songs_row.duration = song_rec.duration s\<rparr>"

definition songs_query :: "engine \<Rightarrow> 'd song_rec list \<Rightarrow> 'd songs_row list" where
  "songs_query eng staging_songs =
     remdups (map songs_select (filter (\<lambda>s. year_ne_0 eng (song_rec.year s)) staging_songs))"

definition artists_select :: "'d song_rec \<Rightarrow> 'd artists_row" where
  "artists_select s =
     \<lparr>artists_row.artist_id = song_rec.artist_id s,
      artists_row.artist_name = song_rec.artist_name s,
      artists_row.artist_location = song_rec.artist_location s,
      artists_row.artist_latitude = song_rec.artist_latitude s,
      artists_row.artist_longitude = song_rec.artist_longitude s\<rparr>"

definition artists_query :: "'d song_rec list \<Rightarrow> 'd artists_row list" where
  "artists_query staging_songs = remdups (map artists_select staging_songs)"

text \<open>
  \<open>spark.sql\<close> resolves the table of a \<open>FROM\<close> clause among the temporary views of
  the session; a name that is not registered raises \<open>AnalysisException\<close>.
\<close>

definition from_staging_songs :: "'d world \<Rightarrow> error + 'd song_rec list" where
  "from_staging_songs w =
     (case views w ''staging_songs'' of
        Some (SongDF df) \<Rightarrow> Inr df
      | _ \<Rightarrow> Inl (AnalysisException ''Table or view not found: staging_songs''))"

definition process_song_data ::
  "engine \<Rightarrow> 'd sources \<Rightarrow> 'd world \<Rightarrow> string \<Rightarrow> string \<Rightarrow> (error + unit) \<times> 'd world" where
  "process_song_data eng spark w input_data output_data =
     (case create_song_dataframe input_data spark of
        Inl e \<Rightarrow> (Inl e, w)
      | Inr song_data \<Rightarrow>
          (let w1 = createOrReplaceTempView w ''staging_songs'' (SongDF song_data) in
           case from_staging_songs w1 of
             Inl e \<Rightarrow> (Inl e, w1)
           | Inr staging_songs \<Rightarrow>
               (let songs_table = songs_query eng staging_songs;
                    w2 = createOrReplaceTempView w1 ''songs'' (SongsTable songs_table);
                    w3 = write_parquet w2 (join output_data ''songs/songs.parquet'')
                           [''year'', ''artist_id''] (SongsTable songs_table)
                in case from_staging_songs w3 of
                     Inl e \<Rightarrow> (Inl e, w3)
                   | Inr staging_songs2 \<Rightarrow>
                       (let artists_table = artists_query staging_songs2;
                            w4 = createOrReplaceTempView w3 ''artists'' (ArtistsTable artists_table);
                            w5 = write_parquet w4 (join output_data ''artists/artists.parquet'')
                                   [] (ArtistsTable artists_table)
                        in (Inr (), w5)))))"

section \<open>Reading the activity log (lines 42-74)\<close>

text \<open>
  The second argument of \<open>withColumn\<close> is a Python value: a \<open>Column\<close> (here a
  function of the row) or, at line 73, the result of Python's \<open>str\<close>, a string.
  \<open>withColumn\<close> accepts a \<open>Column\<close> only and raises on anything else.
  \<open>str\<close> of a column object is the printed form of the object, not a column.
\<close>

datatype ('r, 'v) py_arg = Column "'r \<Rightarrow> 'v" | Str string

definition py_str_Column :: "string \<Rightarrow> string" where
  "py_str_Column name = ''Column<'' @ name @ ''>''"

definition withColumn :: "'r list \<Rightarrow> string \<Rightarrow> ('r, 'v) py_arg \<Rightarrow> error + ('r \<times> 'v) list" where
  "withColumn df colName col =
     (case col of
        Column c \<Rightarrow> Inr (map (\<lambda>r. (r, c r)) df)
      | Str s \<Rightarrow> Inl (TypeError ''col should be Column''))"

definition create_log_dataframe :: "engine \<Rightarrow> string \<Rightarrow> 'd sources \<Rightarrow> error + 'd log_row list" where
  "create_log_dataframe eng input_data spark =
     (let log_data = input_data @ ''/log_data/*/*/*/'' in
      case log_json spark log_data of
        None \<Rightarrow> Inl (AnalysisException ''Path does not exist'')
      | Some log_df \<Rightarrow>
          (case withColumn log_df ''timeStamp'' (Column (\<lambda>r. create_timestamp eng (ts r))) of
             Inl e \<Rightarrow> Inl e
           | Inr log_df1 \<Rightarrow>
               withColumn log_df1 ''startTime'' (Str (py_str_Column ''timeStamp''))))"

section \<open>The user, time and songplay tables (lines 110-173)\<close>

definition users_select :: "'d log_row \<Rightarrow> users_row" where
  "users_select r =
     \<lparr>users_row.userId = log_rec.userId (log_fields r),
      users_row.firstName = log_rec.firstName (log_fields r),
      users_row.lastName = log_rec.lastName (log_fields r),
      users_row.gender = log_rec.gender (log_fields r),
      users_row.level = log_rec.level (log_fields r)\<rparr>"

definition users_query :: "'d log_row list \<Rightarrow> users_row list" where
  "users_query staging_logs = remdups (map users_select staging_logs)"

text \<open>The time query (lines 133-141) has no \<open>DISTINCT\<close>.\<close>

definition time_select :: "engine \<Rightarrow> 'd log_row \<Rightarrow> time_row" where
  "time_select eng r =
     \<lparr>time_row.startTime = log_startTime r,
      time_row.hour = sql_hour eng (log_startTime r),
      time_row.day = sql_day eng (log_startTime r),
      time_row.week = sql_weekofyear eng (log_startTime r),
      time_row.month = sql_month eng (log_startTime r),
      time_row.year = sql_year eng (log_startTime r),
      time_row.weekday = sql_weekday eng (log_startTime r)\<rparr>"

definition time_query :: "engine \<Rightarrow> 'd log_row list \<Rightarrow> time_row list" where
  "time_query eng staging_logs = map (time_select eng) staging_logs"

definition from_staging_logs :: "'d world \<Rightarrow> error + 'd log_row list" where
  "from_staging_logs w =
     (case views w ''staging_logs'' of
        Some (LogDF df) \<Rightarrow> Inr df
      | _ \<Rightarrow> Inl (AnalysisException ''Table or view not found: staging_logs''))"

text \<open>
  The join query (lines 152-159) reads \<open>FROM staging_logs l INNER JOIN song_df s\<close>.
  \<open>song_df\<close> is the Python variable of line 151; no line registers a view of that
  name, and the session resolves table names among its views only. In a session that
  holds some view of that name, the condition
  \<open>ON staging_logs.artist = song_df.artist_name\<close> still refers to both tables by the
  names that the aliases \<open>l\<close> and \<open>s\<close> have replaced, which does not resolve either.
  The query has no branch that returns rows.
\<close>

definition combined_query :: "'d world \<Rightarrow> error + combined_row list" where
  "combined_query w =
     (case views w ''staging_logs'' of
        Some (LogDF l) \<Rightarrow>
          (case views w ''song_df'' of
             None \<Rightarrow> Inl (AnalysisException ''Table or view not found: song_df'')
           | Some s \<Rightarrow> Inl (AnalysisException ''cannot resolve staging_logs.artist''))
      | _ \<Rightarrow> Inl (AnalysisException ''Table or view not found: staging_logs''))"

definition from_combined_table :: "'d world \<Rightarrow> error + combined_row list" where
  "from_combined_table w =
     (case views w ''combined_table'' of
        Some (CombinedTable df) \<Rightarrow> Inr df
      | _ \<Rightarrow> Inl (AnalysisException ''Table or view not found: combined_table''))"

definition songplays_select :: "engine \<Rightarrow> combined_row \<Rightarrow> songplays_row" where
  "songplays_select eng c =
     \<lparr>songplays_row.startTime = combined_row.startTime c,
      songplays_row.userId = combined_row.userId c,
      songplays_row.level = combined_row.level c,
      songplays_row.song_id = combined_row.song_id c,
      songplays_row.artist_id = combined_row.artist_id c,
      songplays_row.sessionId = combined_row.sessionId c,
      songplays_row.location = combined_row.location c,
      songplays_row.userAgent = combined_row.userAgent c,
      songplays_row.year = sql_year eng (combined_row.startTime c),
      songplays_row.month = sql_month eng (combined_row.startTime c)\<rparr>"

text \<open>
  \<open>monotonically_increasing_id()\<close> is a 64-bit integer: the partition index in the
  upper 31 bits, the position of the row inside its partition in the lower 33 bits.
\<close>

definition monotonically_increasing_id :: "nat \<Rightarrow> nat \<Rightarrow> 64 word" where
  "monotonically_increasing_id p i = push_bit 33 (word_of_nat p) + word_of_nat i"

definition with_songplay_id :: "'r list list \<Rightarrow> ('r \<times> 64 word) list" where
  "with_songplay_id parts =
     concat (map (\<lambda>(p, rows). map (\<lambda>(i, r). (r, monotonically_increasing_id p i))
                                  (enumerate 0 rows))
                 (enumerate 0 parts))"

definition songplays_query :: "engine \<Rightarrow> combined_row list \<Rightarrow> (songplays_row \<times> 64 word) list" where
  "songplays_query eng combined_table =
     with_songplay_id (partitioning eng (map (songplays_select eng) combined_table))"

text \<open>
  Lines 117-173: what \<open>process_log_data\<close> does with the dataframe that line 116
  hands it.
\<close>

definition process_log_tables ::
  "engine \<Rightarrow> 'd sources \<Rightarrow> 'd world \<Rightarrow> string \<Rightarrow> string \<Rightarrow> 'd log_row list
     \<Rightarrow> (error + unit) \<times> 'd world" where
  "process_log_tables eng spark w input_data output_data log_data0 =
     (let log_data = filter (\<lambda>r. log_rec.page (log_fields r) = Some ''NextSong'') log_data0;
          w1 = createOrReplaceTempView w ''staging_logs'' (LogDF log_data)
      in case from_staging_logs w1 of
           Inl e \<Rightarrow> (Inl e, w1)
         | Inr staging_logs \<Rightarrow>
             (let users_table = users_query staging_logs;
                  w2 = createOrReplaceTempView w1 ''users'' (UsersTable users_table);
                  w3 = write_parquet w2 (join output_data ''users/users.parquet'')
                         [] (UsersTable users_table)
              in case from_staging_logs w3 of
                   Inl e \<Rightarrow> (Inl e, w3)
                 | Inr staging_logs2 \<Rightarrow>
                     (let time_table = time_query eng staging_logs2;
                          w4 = createOrReplaceTempView w3 ''time'' (TimeTable time_table);
                          w5 = write_parquet w4 (join output_data ''time/time.parquet'')
                                 [''year'', ''month''] (TimeTable time_table)
                      in case create_song_dataframe input_data spark of
                           Inl e \<Rightarrow> (Inl e, w5)
                         | Inr song_df \<Rightarrow>
                             (case combined_query w5 of
                                Inl e \<Rightarrow> (Inl e, w5)
                              | Inr combined_df \<Rightarrow>
                                  (let w6 = createOrReplaceTempView w5 ''combined_table''
                                              (CombinedTable combined_df)
                                   in case from_combined_table w6 of
                                        Inl e \<Rightarrow> (Inl e, w6)
                                      | Inr combined_table \<Rightarrow>
                                          (let songplays_table = songplays_query eng combined_table;
                                               w7 = createOrReplaceTempView w6 ''songplays''
                                                      (SongplaysTable songplays_table);
                                               w8 = write_parquet w7
                                                      (join output_data ''songplays/songplays.parquet'')
                                                      [''year'', ''month'']
                                                      (SongplaysTable songplays_table)
                                           in (Inr (), w8)))))))"

definition process_log_data ::
  "engine \<Rightarrow> 'd sources \<Rightarrow> 'd world \<Rightarrow> string \<Rightarrow> string \<Rightarrow> (error + unit) \<times> 'd world" where
  "process_log_data eng spark w input_data output_data =
     (case create_log_dataframe eng input_data spark of
        Inl e \<Rightarrow> (Inl e, w)
      | Inr log_data \<Rightarrow> process_log_tables eng spark w input_data output_data log_data)"

section \<open>The entry point (lines 176-193)\<close>

text \<open>
  \<open>create_spark_session\<close>: the session of a fresh process holds no temporary view;
  the output root holds whatever earlier runs left there.
\<close>

definition create_spark_session :: "(string \<rightharpoonup> string list \<times> 'd table) \<Rightarrow> 'd world" where
  "create_spark_session fs = \<lparr>views = Map.empty, files = fs\<rparr>"

definition input_data_root :: string where
  "input_data_root = ''s3a://udacity-dend/''"

text \<open>Line 190 assigns the quoted text itself, quotation marks included.\<close>

definition output_data_root :: string where
  "output_data_root = ''root_dir + '' @ [CHR 0x27] @ ''/data/'' @ [CHR 0x27]"

text \<open>Lines 187-193: the session and the two calls, in the order of the source.\<close>

definition main_etl ::
  "engine \<Rightarrow> 'd sources \<Rightarrow> (string \<rightharpoonup> string list \<times> 'd table) \<Rightarrow> (error + unit) \<times> 'd world" where
  "main_etl eng src fs =
     (let spark = create_spark_session fs;
          input_data = input_data_root;
          output_data = output_data_root
      in case process_song_data eng src spark input_data output_data of
           (Inl e, w1) \<Rightarrow> (Inl e, w1)
         | (Inr u, w1) \<Rightarrow> process_log_data eng src w1 input_data output_data)"

text \<open>
  Lines 181-185: \<open>config.read\<close> yields the sections of \<open>dl.cfg\<close> (none when the file
  is missing); \<open>config[name]\<close> looks a section up and raises \<open>KeyError\<close> when there is
  none; \<open>os.environ[name] = value\<close> accepts a string only, and a section is not one.
\<close>

datatype pyval = PyStr string | PySectionProxy "string \<rightharpoonup> string"

definition config_getitem :: "(string \<rightharpoonup> (string \<rightharpoonup> string)) \<Rightarrow> string \<Rightarrow> error + pyval" where
  "config_getitem config name =
     (case config name of
        None \<Rightarrow> Inl (KeyError name)
      | Some section \<Rightarrow> Inr (PySectionProxy section))"

definition environ_setitem ::
  "(string \<rightharpoonup> string) \<Rightarrow> string \<Rightarrow> pyval \<Rightarrow> error + (string \<rightharpoonup> string)" where
  "environ_setitem environ name v =
     (case v of
        PyStr s \<Rightarrow> Inr (environ(name \<mapsto> s))
      | PySectionProxy sec \<Rightarrow> Inl (TypeError ''str expected, not SectionProxy''))"

definition main ::
  "(string \<rightharpoonup> (string \<rightharpoonup> string)) \<Rightarrow> (string \<rightharpoonup> string) \<Rightarrow> engine \<Rightarrow> 'd sources
     \<Rightarrow> (string \<rightharpoonup> string list \<times> 'd table) \<Rightarrow> (error + unit) \<times> 'd world" where
  "main config environ eng src fs =
     (case config_getitem config ''AWS_ACCESS_KEY_ID'' of
        Inl e \<Rightarrow> (Inl e, create_spark_session fs)
      | Inr v1 \<Rightarrow>
          (case environ_setitem environ ''AWS_ACCESS_KEY_ID'' v1 of
             Inl e \<Rightarrow> (Inl e, create_spark_session fs)
           | Inr environ1 \<Rightarrow>
               (case config_getitem config ''AWS_SECRET_ACCESS_KEY'' of
                  Inl e \<Rightarrow> (Inl e, create_spark_session fs)
                | Inr v2 \<Rightarrow>
                    (case environ_setitem environ1 ''AWS_SECRET_ACCESS_KEY'' v2 of
                       Inl e \<Rightarrow> (Inl e, create_spark_session fs)
                     | Inr environ2 \<Rightarrow> main_etl eng src fs))))"

section \<open>Concrete inputs\<close>

text \<open>
  An instance of the engine for the concrete inputs below. Its cast reads plain
  decimal numerals (an optional minus sign and digits, within the 32-bit range) and
  rejects every other string; its calendar functions and its timestamp column know
  no value; it keeps all rows of the fact query in one partition.
\<close>

definition digit_of :: "char \<Rightarrow> int option" where
  "digit_of c =
     (let n = (of_char c :: nat) in if 48 \<le> n \<and> n \<le> 57 then Some (int n - 48) else None)"

fun digits_val :: "int \<Rightarrow> string \<Rightarrow> int option" where
  "digits_val acc [] = Some acc"
| "digits_val acc (c # cs) =
     (case digit_of c of None \<Rightarrow> None | Some d \<Rightarrow> digits_val (10 * acc + d) cs)"

definition decimal_cast :: "string \<Rightarrow> int option" where
  "decimal_cast s =
     (case s of
        [] \<Rightarrow> None
      | c # cs \<Rightarrow>
          (case (if c = CHR ''-''
                 then (if cs = [] then None else map_option uminus (digits_val 0 cs))
                 else digits_val 0 s) of
             None \<Rightarrow> None
           | Some n \<Rightarrow> if - (2 ^ 31) \<le> n \<and> n < 2 ^ 31 then Some n else None))"

definition example_engine :: engine where
  "example_engine =
     \<lparr>cast_int = decimal_cast,
      sql_hour = (\<lambda>t. None), sql_day = (\<lambda>t. None), sql_weekofyear = (\<lambda>t. None),
      sql_month = (\<lambda>t. None), sql_year = (\<lambda>t. None), sql_weekday = (\<lambda>t. None),
      create_timestamp = (\<lambda>t. None),
      partitioning = (\<lambda>rows. [rows])\<rparr>"

text \<open>Two catalog records, the second with year 0.\<close>

definition example_song :: "rat song_rec" where
  "example_song =
     \<lparr>song_rec.song_id = Some ''SOUPIRU12A6D4FA1E1'',
      song_rec.title = Some ''Der Kleine Dompfaff'',
      song_rec.year = Some ''1961'',
      song_rec.duration = Some 152.92,
      song_rec.artist_id = Some ''ARJIE2Y1187B994AB7'',
      song_rec.artist_name = Some ''Line Renaud'',
      song_rec.artist_location = Some [],
      song_rec.artist_latitude = None,
      song_rec.artist_longitude = None\<rparr>"

definition example_song_year0 :: "rat song_rec" where
  "example_song_year0 =
     example_song\<lparr>song_rec.song_id := Some ''SOMZWCG12A8C13C480'', song_rec.year := Some ''0''\<rparr>"

definition empty_world :: "rat world" where
  "empty_world = \<lparr>views = Map.empty, files = Map.empty\<rparr>"

text \<open>An output root that holds no dataset.\<close>

definition no_files :: "string \<rightharpoonup> string list \<times> rat table" where
  "no_files = Map.empty"

text \<open>A source root \<open>in\<close> that holds the catalog and no activity log.\<close>

definition catalog_only :: "rat sources" where
  "catalog_only =
     \<lparr>song_json = [''in/song_data/*/*/*/'' \<mapsto> [example_song, example_song_year0]],
      log_json = Map.empty\<rparr>"

text \<open>
  A catalog record whose year is no numeral, and a source root \<open>in\<close> whose catalog
  holds a record of each kind.
\<close>

definition example_song_no_year :: "rat song_rec" where
  "example_song_no_year =
     example_song\<lparr>song_rec.song_id := Some ''SOBLFFE12AF72AA5BA'', song_rec.year := Some ''n/a''\<rparr>"

definition catalog_mixed_years :: "rat sources" where
  "catalog_mixed_years =
     \<lparr>song_json = [''in/song_data/*/*/*/'' \<mapsto>
                    [example_song, example_song_year0, example_song_no_year]],
      log_json = Map.empty\<rparr>"

text \<open>
  The source root of line 188 where both path patterns match directories that hold no
  file: both reads give an empty dataframe.
\<close>

definition s3_empty_dirs :: "rat sources" where
  "s3_empty_dirs =
     \<lparr>song_json = [input_data_root @ ''/song_data/*/*/*/'' \<mapsto> []],
      log_json = [input_data_root @ ''/log_data/*/*/*/'' \<mapsto> []]\<rparr>"

text \<open>
  Activity events: a play of a song by the artist of \<open>example_song\<close>, a visit of the
  home page by the same user, a play by a user with an empty \<open>userId\<close>, and a play
  by a second user at the same instant as the first.
\<close>

definition example_event :: "rat log_rec" where
  "example_event =
     \<lparr>log_rec.artist = Some ''Line Renaud'',
      log_rec.auth = Some ''Logged In'',
      log_rec.firstName = Some ''Lily'',
      log_rec.gender = Some ''F'',
      log_rec.itemInSession = Some 0,
      log_rec.lastName = Some ''Koch'',
      log_rec.length_col = Some 152.92,
      log_rec.level = Some ''paid'',
      log_rec.location = Some ''Chicago'',
      log_rec.method_col = Some ''PUT'',
      log_rec.page = Some ''NextSong'',
      log_rec.registration = Some 1541048010796,
      log_rec.sessionId = Some 818,
      log_rec.song = Some ''Der Kleine Dompfaff'',
      log_rec.status = Some 200,
      log_rec.ts = Some 1541990395796,
      log_rec.userAgent = Some ''Mozilla/5.0'',
      log_rec.userId = Some ''15''\<rparr>"

definition example_home_event :: "rat log_rec" where
  "example_home_event =
     example_event\<lparr>log_rec.artist := None, log_rec.length_col := None,
                    log_rec.method_col := Some ''GET'', log_rec.page := Some ''Home'',
                    log_rec.song := None\<rparr>"

definition example_anonymous_event :: "rat log_rec" where
  "example_anonymous_event =
     example_event\<lparr>log_rec.auth := Some ''Logged Out'', log_rec.firstName := None,
                    log_rec.gender := None, log_rec.lastName := None,
                    log_rec.level := Some ''free'', log_rec.userId := Some []\<rparr>"

definition example_second_event :: "rat log_rec" where
  "example_second_event =
     example_event\<lparr>log_rec.firstName := Some ''Kate'', log_rec.lastName := Some ''Harrell'',
                    log_rec.sessionId := Some 293, log_rec.userId := Some ''97''\<rparr>"

text \<open>
  The row that an event would have after lines 71 and 73, for a timestamp column and
  a start-time column that both hold the given text.
\<close>

definition row_of :: "rat log_rec \<Rightarrow> string \<Rightarrow> rat log_row" where
  "row_of e t = ((e, Some t), Some t)"

definition example_sources :: "rat sources" where
  "example_sources =
     \<lparr>song_json = [''in/song_data/*/*/*/'' \<mapsto> [example_song, example_song_year0]],
      log_json = [''in/log_data/*/*/*/'' \<mapsto> [example_event, example_home_event]]\<rparr>"

text \<open>The source root of line 188 with a catalog under it and no activity log.\<close>

definition s3_catalog_only :: "rat sources" where
  "s3_catalog_only =
     \<lparr>song_json = [input_data_root @ ''/song_data/*/*/*/'' \<mapsto> [example_song]],
      log_json = Map.empty\<rparr>"

definition s3_log_only :: "rat sources" where
  "s3_log_only =
     \<lparr>song_json = Map.empty,
      log_json = [input_data_root @ ''/log_data/*/*/*/'' \<mapsto> [example_event]]\<rparr>"

text \<open>
  Two rows as the join query would have to return them, and an engine that puts every
  row of the fact query into a partition of its own.
\<close>

definition example_combined :: "combined_row list" where
  "example_combined =
     [\<lparr>combined_row.userId = Some ''15'', combined_row.level = Some ''paid'',
       combined_row.song_id = Some ''SOUPIRU12A6D4FA1E1'',
       combined_row.artist_id = Some ''ARJIE2Y1187B994AB7'',
       combined_row.sessionId = Some 818, combined_row.location = Some ''Chicago'',
       combined_row.userAgent = Some ''Mozilla/5.0'',
       combined_row.startTime = Some ''2018-11-12 02:39:55.796''\<rparr>,
      \<lparr>combined_row.userId = Some ''97'', combined_row.level = Some ''paid'',
       combined_row.song_id = Some ''SOUPIRU12A6D4FA1E1'',
       combined_row.artist_id = Some ''ARJIE2Y1187B994AB7'',
       combined_row.sessionId = Some 293, combined_row.location = Some ''Chicago'',
       combined_row.userAgent = Some ''Mozilla/5.0'',
       combined_row.startTime = Some ''2018-11-12 02:39:55.796''\<rparr>]"

definition row_per_partition_engine :: engine where
  "row_per_partition_engine = example_engine\<lparr>partitioning := (\<lambda>rows. map (\<lambda>r. [r]) rows)\<rparr>"

section \<open>What \<open>process_song_data\<close> writes\<close>

lemma join_inject:
  "take 1 b \<noteq> ''/'' \<Longrightarrow> take 1 c \<noteq> ''/'' \<Longrightarrow> (join a b = join a c) = (b = c)"
  by (auto simp: join_def)

lemma process_song_data_missing:
  assumes "song_json spark (input_data @ ''/song_data/*/*/*/'') = None"
  shows "process_song_data eng spark w input_data output_data =
           (Inl (AnalysisException ''Path does not exist''), w)"
  using assms by (simp add: process_song_data_def create_song_dataframe_def)

lemma process_song_data_present:
  assumes "song_json spark (input_data @ ''/song_data/*/*/*/'') = Some catalog"
  shows "process_song_data eng spark w input_data output_data =
           (Inr (),
            \<lparr>views = (views w)(''staging_songs'' \<mapsto> SongDF catalog,
                                ''songs'' \<mapsto> SongsTable (songs_query eng catalog),
                                ''artists'' \<mapsto> ArtistsTable (artists_query catalog)),
             files = (files w)(join output_data ''songs/songs.parquet'' \<mapsto>
                                  ([''year'', ''artist_id''], SongsTable (songs_query eng catalog)),
                               join output_data ''artists/artists.parquet'' \<mapsto>
                                  ([], ArtistsTable (artists_query catalog)))\<rparr>)"
  using assms
  by (simp add: process_song_data_def create_song_dataframe_def from_staging_songs_def
      createOrReplaceTempView_def write_parquet_def Let_def)

lemma songs_artists_paths_differ:
  "join output_data ''songs/songs.parquet'' \<noteq> join output_data ''artists/artists.parquet''"
  by (simp add: join_inject)

lemma songs_query_rows:
  "r \<in> set (songs_query eng catalog) \<longleftrightarrow>
     (\<exists>s \<in> set catalog. r = songs_select s \<and> year_ne_0 eng (song_rec.year s))"
  by (auto simp: songs_query_def)

lemma example_songs_query:
  "songs_query example_engine [example_song, example_song_year0] =
     [\<lparr>songs_row.song_id = Some ''SOUPIRU12A6D4FA1E1'',
       songs_row.artist_id = Some ''Der Kleine Dompfaff'',
       songs_row.year = Some ''1961'',
       songs_row.duration = Some 152.92\<rparr>]"
  by (simp add: songs_query_def songs_select_def year_ne_0_def example_engine_def
      decimal_cast_def digit_of_def example_song_def example_song_year0_def)

lemma catalog_only_songs:
  "song_json catalog_only (''in'' @ ''/song_data/*/*/*/'')
     = Some [example_song, example_song_year0]"
  by (simp add: catalog_only_def)

text \<open>
  Claim C1. The claim: the Song dimension holds the distinct tuples
  (song_id, title, artist_id, year, duration) of the catalog records whose year is not 0.
  The code, on a catalog of one record with year 1961 and one with year 0: the year-0
  record is left out, and the row written for the other record has four columns, its
  \<open>artist_id\<close> column holding the title \<open>Der Kleine Dompfaff\<close>; the artist id
  \<open>ARJIE2Y1187B994AB7\<close> of the catalog record is nowhere in the table.
\<close>

theorem songs_table_holds_title_as_artist_id:
  "files (snd (process_song_data example_engine catalog_only empty_world ''in'' ''out''))
     ''out/songs/songs.parquet''
   = Some ([''year'', ''artist_id''],
           SongsTable [\<lparr>songs_row.song_id = Some ''SOUPIRU12A6D4FA1E1'',
                        songs_row.artist_id = Some ''Der Kleine Dompfaff'',
                        songs_row.year = Some ''1961'',
                        songs_row.duration = Some 152.92\<rparr>])"
  by (simp add: process_song_data_present [OF catalog_only_songs] example_songs_query join_def)

lemma year_ne_0_iff:
  "year_ne_0 eng y0 \<longleftrightarrow> (\<exists>(y :: string) n. y0 = Some y \<and> cast_int eng y = Some n \<and> n \<noteq> 0)"
  by (auto simp: year_ne_0_def split: option.splits)

lemma catalog_mixed_years_songs:
  "song_json catalog_mixed_years (''in'' @ ''/song_data/*/*/*/'')
     = Some [example_song, example_song_year0, example_song_no_year]"
  by (simp add: catalog_mixed_years_def)

lemma example_songs_query_mixed:
  "songs_query example_engine [example_song, example_song_year0, example_song_no_year] =
     [\<lparr>songs_row.song_id = Some ''SOUPIRU12A6D4FA1E1'',
       songs_row.artist_id = Some ''Der Kleine Dompfaff'',
       songs_row.year = Some ''1961'',
       songs_row.duration = Some 152.92\<rparr>]"
  by (simp add: songs_query_def songs_select_def year_ne_0_def example_engine_def
      decimal_cast_def digit_of_def example_song_def example_song_year0_def
      example_song_no_year_def)

text \<open>
  Claim C10. The year column of the catalog is a nullable string, and the exclusion
  test is made on that string through the engine's cast. The Song table written holds,
  each once, exactly the rows selected from the catalog records whose year string the
  cast turns into an integer other than 0: a record whose year is null, or a string
  that the cast rejects, or a string that the cast turns into 0, contributes no row.
  The year column of a row is the year string of its catalog record, unchanged.
\<close>

theorem songs_year_column_is_catalog_string:
  assumes "song_json spark (input_data @ ''/song_data/*/*/*/'') = Some catalog"
  shows "\<exists>rows. files (snd (process_song_data eng spark w input_data output_data))
                  (join output_data ''songs/songs.parquet'')
                = Some ([''year'', ''artist_id''], SongsTable rows)
             \<and> distinct rows
             \<and> set rows = songs_select `
                   {s \<in> set catalog. \<exists>(y :: string) n.
                      song_rec.year s = Some y \<and> cast_int eng y = Some n \<and> n \<noteq> 0}
             \<and> (\<forall>s :: 'a song_rec. songs_row.year (songs_select s) = song_rec.year s)"
proof -
  have written: "files (snd (process_song_data eng spark w input_data output_data))
            (join output_data ''songs/songs.parquet'')
          = Some ([''year'', ''artist_id''], SongsTable (songs_query eng catalog))"
    by (simp add: process_song_data_present [OF assms] songs_artists_paths_differ)
  have "distinct (songs_query eng catalog)"
    by (simp add: songs_query_def)
  moreover have "set (songs_query eng catalog) = songs_select `
                   {s \<in> set catalog. \<exists>(y :: string) n.
                      song_rec.year s = Some y \<and> cast_int eng y = Some n \<and> n \<noteq> 0}"
    by (simp add: songs_query_def year_ne_0_iff)
  moreover have "\<forall>s :: 'a song_rec. songs_row.year (songs_select s) = song_rec.year s"
    by (simp add: songs_select_def)
  ultimately show ?thesis
    using written by blast
qed

theorem songs_year_column_is_catalog_string_witness:
  "song_json catalog_mixed_years (''in'' @ ''/song_data/*/*/*/'')
     = Some [example_song, example_song_year0, example_song_no_year]
   \<and> (\<exists>rows. files (snd (process_song_data example_engine catalog_mixed_years empty_world
                            ''in'' ''out''))
                  (join ''out'' ''songs/songs.parquet'')
                = Some ([''year'', ''artist_id''], SongsTable rows)
             \<and> distinct rows
             \<and> set rows = songs_select `
                   {s \<in> set [example_song, example_song_year0, example_song_no_year].
                      \<exists>(y :: string) n.
                        song_rec.year s = Some y \<and> cast_int example_engine y = Some n \<and> n \<noteq> 0}
             \<and> (\<forall>s :: rat song_rec. songs_row.year (songs_select s) = song_rec.year s))
   \<and> files (snd (process_song_data example_engine catalog_mixed_years empty_world ''in'' ''out''))
        (join ''out'' ''songs/songs.parquet'')
       = Some ([''year'', ''artist_id''],
               SongsTable [\<lparr>songs_row.song_id = Some ''SOUPIRU12A6D4FA1E1'',
                            songs_row.artist_id = Some ''Der Kleine Dompfaff'',
                            songs_row.year = Some ''1961'',
                            songs_row.duration = Some 152.92\<rparr>])
   \<and> cast_int example_engine ''1961'' = Some 1961
   \<and> cast_int example_engine ''0'' = Some 0
   \<and> cast_int example_engine ''n/a'' = None"
proof -
  have pinned: "files (snd (process_song_data example_engine catalog_mixed_years empty_world
                             ''in'' ''out''))
        (join ''out'' ''songs/songs.parquet'')
       = Some ([''year'', ''artist_id''],
               SongsTable [\<lparr>songs_row.song_id = Some ''SOUPIRU12A6D4FA1E1'',
                            songs_row.artist_id = Some ''Der Kleine Dompfaff'',
                            songs_row.year = Some ''1961'',
                            songs_row.duration = Some 152.92\<rparr>])"
    by (simp add: process_song_data_present [OF catalog_mixed_years_songs]
        example_songs_query_mixed songs_artists_paths_differ)
  have casts: "cast_int example_engine ''1961'' = Some 1961"
    "cast_int example_engine ''0'' = Some 0"
    "cast_int example_engine ''n/a'' = None"
    by (simp_all add: example_engine_def decimal_cast_def digit_of_def)
  from songs_year_column_is_catalog_string
         [OF catalog_mixed_years_songs, of example_engine empty_world "''out''"]
       catalog_mixed_years_songs pinned casts
  show ?thesis by blast
qed

section \<open>Reading the activity log never returns\<close>

lemma create_log_dataframe_raises:
  "create_log_dataframe eng input_data spark =
     Inl (case log_json spark (input_data @ ''/log_data/*/*/*/'') of
            None \<Rightarrow> AnalysisException ''Path does not exist''
          | Some log_df \<Rightarrow> TypeError ''col should be Column'')"
  by (simp add: create_log_dataframe_def withColumn_def split: option.splits)

lemma process_log_data_raises:
  "process_log_data eng spark w input_data output_data =
     (Inl (case log_json spark (input_data @ ''/log_data/*/*/*/'') of
             None \<Rightarrow> AnalysisException ''Path does not exist''
           | Some log_df \<Rightarrow> TypeError ''col should be Column''), w)"
  by (simp add: process_log_data_def create_log_dataframe_raises)

section \<open>What lines 117-173 write, given a log dataframe\<close>

lemma combined_query_no_rows: "combined_query w \<noteq> Inr rows"
  by (simp add: combined_query_def split: option.splits table.splits)

lemma process_log_tables_files:
  "files (snd (process_log_tables eng spark w input_data output_data log_data)) =
     (files w)
       (join output_data ''users/users.parquet'' \<mapsto>
          ([], UsersTable (users_query
                 (filter (\<lambda>r. log_rec.page (log_fields r) = Some ''NextSong'') log_data))),
        join output_data ''time/time.parquet'' \<mapsto>
          ([''year'', ''month''], TimeTable (time_query eng
                 (filter (\<lambda>r. log_rec.page (log_fields r) = Some ''NextSong'') log_data))))"
  by (simp add: process_log_tables_def Let_def from_staging_logs_def combined_query_no_rows
      createOrReplaceTempView_def write_parquet_def split: sum.splits)

lemma process_log_tables_raises:
  "\<exists>e. fst (process_log_tables eng spark w input_data output_data log_data) = Inl e"
  by (simp add: process_log_tables_def Let_def from_staging_logs_def combined_query_no_rows
      createOrReplaceTempView_def write_parquet_def split: sum.splits)

lemma output_paths_differ:
  "join output_data ''users/users.parquet'' \<noteq> join output_data ''time/time.parquet''"
  "join output_data ''songplays/songplays.parquet'' \<noteq> join output_data ''users/users.parquet''"
  "join output_data ''songplays/songplays.parquet'' \<noteq> join output_data ''time/time.parquet''"
  by (simp_all add: join_inject)

lemma users_table_written:
  "files (snd (process_log_tables eng spark w input_data output_data log_data))
     (join output_data ''users/users.parquet'') =
   Some ([], UsersTable (users_query
           (filter (\<lambda>r. log_rec.page (log_fields r) = Some ''NextSong'') log_data)))"
  by (simp add: process_log_tables_files output_paths_differ)

lemma time_table_written:
  "files (snd (process_log_tables eng spark w input_data output_data log_data))
     (join output_data ''time/time.parquet'') =
   Some ([''year'', ''month''], TimeTable (time_query eng
           (filter (\<lambda>r. log_rec.page (log_fields r) = Some ''NextSong'') log_data)))"
  by (simp add: process_log_tables_files)

lemma songplays_never_written:
  "files (snd (process_log_tables eng spark w input_data output_data log_data))
     (join output_data ''songplays/songplays.parquet'') =
   files w (join output_data ''songplays/songplays.parquet'')"
  by (simp add: process_log_tables_files output_paths_differ)

text \<open>
  Claim C2, as stated: the User dimension holds the distinct user tuples of all
  activity events, whatever their page. It fails on a log that holds one visit of the
  home page: line 118 filters the dataframe to \<open>NextSong\<close> before the view that the
  user query reads is registered, and the table written is empty.
\<close>

theorem users_table_drops_home_event:
  "log_rec.page (log_fields (row_of example_home_event ''2018-11-12 02:39:55.796'')) = Some ''Home''
   \<and> files (snd (process_log_tables example_engine example_sources empty_world ''in'' ''out''
                   [row_of example_home_event ''2018-11-12 02:39:55.796'']))
        (join ''out'' ''users/users.parquet'') = Some ([], UsersTable [])"
  by (simp add: users_table_written users_query_def row_of_def log_fields_def
      example_home_event_def example_event_def)

text \<open>
  Claim C2, amended: given the log dataframe, the User table written by lines 117-130
  holds exactly the distinct tuples (userId, firstName, lastName, gender, level) of the
  events whose page is \<open>NextSong\<close>, each once; events with another page contribute no
  row.
\<close>

theorem users_table_is_distinct_nextsong_projection:
  "\<exists>rows. files (snd (process_log_tables eng spark w input_data output_data log_data))
             (join output_data ''users/users.parquet'') = Some ([], UsersTable rows)
         \<and> distinct rows
         \<and> set rows = users_select ` {r \<in> set log_data. log_rec.page (log_fields r) = Some ''NextSong''}"
  by (auto simp: users_table_written users_query_def)

theorem users_table_is_distinct_nextsong_projection_witness:
  "\<exists>rows. files (snd (process_log_tables example_engine example_sources empty_world ''in'' ''out''
                   [row_of example_event ''2018-11-12 02:39:55.796'',
                    row_of example_home_event ''2018-11-12 02:40:01.796'']))
             (join ''out'' ''users/users.parquet'') = Some ([], UsersTable rows)
         \<and> distinct rows
         \<and> set rows = users_select `
               {r \<in> set [row_of example_event ''2018-11-12 02:39:55.796'',
                          row_of example_home_event ''2018-11-12 02:40:01.796''].
                  log_rec.page (log_fields r) = Some ''NextSong''}"
  using users_table_is_distinct_nextsong_projection
          [of example_engine example_sources empty_world "''in''" "''out''"
              "[row_of example_event ''2018-11-12 02:39:55.796'',
                row_of example_home_event ''2018-11-12 02:40:01.796'']"]
  by simp

text \<open>
  Claim C5, as stated: no row of the User dimension has an empty user id. It fails on
  a log that holds one play by a user whose \<open>userId\<close> is the empty string: the user
  query (lines 122-125) has no condition on \<open>userId\<close>, and the row is written.
\<close>

theorem users_table_has_empty_user_id_row:
  "files (snd (process_log_tables example_engine example_sources empty_world ''in'' ''out''
                 [row_of example_anonymous_event ''2018-11-12 02:39:55.796'']))
     (join ''out'' ''users/users.parquet'')
   = Some ([], UsersTable [\<lparr>users_row.userId = Some [], users_row.firstName = None,
                            users_row.lastName = None, users_row.gender = None,
                            users_row.level = Some ''free''\<rparr>])"
  by (simp add: users_table_written users_query_def users_select_def row_of_def log_fields_def
      example_anonymous_event_def example_event_def)

text \<open>
  Claim C5, amended: the user query applies no filter on the user id. Given the log
  dataframe, every \<open>NextSong\<close> event whose \<open>userId\<close> is empty contributes its
  tuple, with the empty user id, to the User table written by lines 117-130.
\<close>

theorem users_table_keeps_empty_user_id:
  assumes "r \<in> set log_data"
      and "log_rec.page (log_fields r) = Some ''NextSong''"
      and "log_rec.userId (log_fields r) = Some []"
  shows "\<exists>rows. files (snd (process_log_tables eng spark w input_data output_data log_data))
                  (join output_data ''users/users.parquet'') = Some ([], UsersTable rows)
             \<and> users_select r \<in> set rows
             \<and> users_row.userId (users_select r) = Some []"
proof -
  from assms(1,2) have "users_select r \<in> set (users_query
          (filter (\<lambda>r. log_rec.page (log_fields r) = Some ''NextSong'') log_data))"
    by (simp add: users_query_def)
  moreover from assms(3) have "users_row.userId (users_select r) = Some []"
    by (simp add: users_select_def)
  ultimately show ?thesis
    by (simp add: users_table_written)
qed

theorem users_table_keeps_empty_user_id_witness:
  "row_of example_anonymous_event ''t'' \<in> set [row_of example_anonymous_event ''t'']
   \<and> log_rec.page (log_fields (row_of example_anonymous_event ''t'')) = Some ''NextSong''
   \<and> log_rec.userId (log_fields (row_of example_anonymous_event ''t'')) = Some []
   \<and> (\<exists>rows. files (snd (process_log_tables example_engine example_sources empty_world ''in'' ''out''
                        [row_of example_anonymous_event ''t'']))
                  (join ''out'' ''users/users.parquet'') = Some ([], UsersTable rows)
             \<and> users_select (row_of example_anonymous_event ''t'') \<in> set rows
             \<and> users_row.userId (users_select (row_of example_anonymous_event ''t'')) = Some [])"
proof -
  have h1: "row_of example_anonymous_event ''t'' \<in> set [row_of example_anonymous_event ''t'']"
    by simp
  have h2: "log_rec.page (log_fields (row_of example_anonymous_event ''t'')) = Some ''NextSong''"
    by (simp add: row_of_def log_fields_def example_anonymous_event_def example_event_def)
  have h3: "log_rec.userId (log_fields (row_of example_anonymous_event ''t'')) = Some []"
    by (simp add: row_of_def log_fields_def example_anonymous_event_def example_event_def)
  from users_table_keeps_empty_user_id
         [OF h1 h2 h3, of example_engine example_sources empty_world "''in''" "''out''"] h1 h2 h3
  show ?thesis by blast
qed

text \<open>
  Claim C4. The claim: the Time dimension has one row per distinct timestamp, and no
  timestamp occurs in two rows. The code, on two plays by two users at the same
  instant: the time query (lines 133-141) has no \<open>DISTINCT\<close>, unlike the song,
  artist and user queries, and the table written holds the same row twice.
\<close>

theorem time_table_repeats_a_timestamp:
  "files (snd (process_log_tables example_engine example_sources empty_world ''in'' ''out''
                 [row_of example_event ''2018-11-12 02:39:55.796'',
                  row_of example_second_event ''2018-11-12 02:39:55.796'']))
     (join ''out'' ''time/time.parquet'')
   = Some ([''year'', ''month''],
           TimeTable [\<lparr>time_row.startTime = Some ''2018-11-12 02:39:55.796'', hour = None,
                        day = None, week = None, month = None, year = None, weekday = None\<rparr>,
                      \<lparr>time_row.startTime = Some ''2018-11-12 02:39:55.796'', hour = None,
                        day = None, week = None, month = None, year = None, weekday = None\<rparr>])"
  by (simp add: time_table_written time_query_def time_select_def row_of_def log_fields_def
      log_startTime_def example_engine_def example_second_event_def example_event_def)

section \<open>Lines 117-173 on a matching play, and the read before them\<close>

lemma example_sources_logs:
  "log_json example_sources ''in/log_data/*/*/*/'' = Some [example_event, example_home_event]"
  by (simp add: example_sources_def)

lemma example_sources_songs:
  "song_json example_sources ''in/song_data/*/*/*/'' = Some [example_song, example_song_year0]"
  by (simp add: example_sources_def)

text \<open>
  Claim C7. The claim: every activity event gets a derived timestamp, the civil-time
  conversion of its epoch milliseconds, computed once before any table logic reads it.
  The code, on a log that holds an event with \<open>ts = 1541990395796\<close>: line 71 adds the
  column \<open>timeStamp\<close>, and line 73 hands \<open>withColumn\<close> the text that \<open>str\<close> makes
  of the column object instead of a column. \<open>withColumn\<close> raises, and
  \<open>create_log_dataframe\<close> returns no dataframe: no event ever gets a \<open>startTime\<close>.
\<close>

theorem startTime_column_is_never_built:
  "log_rec.ts example_event = Some 1541990395796
   \<and> create_log_dataframe example_engine ''in'' example_sources
       = Inl (TypeError ''col should be Column'')"
  by (simp add: create_log_dataframe_raises example_sources_logs example_event_def)

text \<open>
  Claim C3. The claim: one fact row for each pair of a \<open>NextSong\<close> event and a
  catalog entry with the same artist name. The code, on one \<open>NextSong\<close> event by the
  artist of a catalog entry: \<open>process_log_data\<close> raises at the log read (line 73) and
  leaves the state as it was; and lines 117-173, handed the row of that event, raise at
  the join query, where \<open>song_df\<close> is no registered view, so that no fact table is
  written.
\<close>

theorem no_fact_row_for_matching_play:
  "log_rec.artist example_event = song_rec.artist_name example_song
   \<and> log_rec.page example_event = Some ''NextSong''
   \<and> process_log_data example_engine example_sources empty_world ''in'' ''out''
       = (Inl (TypeError ''col should be Column''), empty_world)
   \<and> fst (process_log_tables example_engine example_sources empty_world ''in'' ''out''
            [row_of example_event ''2018-11-12 02:39:55.796''])
       = Inl (AnalysisException ''Table or view not found: song_df'')
   \<and> files (snd (process_log_tables example_engine example_sources empty_world ''in'' ''out''
                   [row_of example_event ''2018-11-12 02:39:55.796'']))
        (join ''out'' ''songplays/songplays.parquet'') = None"
proof -
  have a: "log_rec.artist example_event = song_rec.artist_name example_song"
    by (simp add: example_event_def example_song_def)
  have b: "log_rec.page example_event = Some ''NextSong''"
    by (simp add: example_event_def)
  have c: "process_log_data example_engine example_sources empty_world ''in'' ''out''
       = (Inl (TypeError ''col should be Column''), empty_world)"
    by (simp add: process_log_data_raises example_sources_logs)
  have d: "fst (process_log_tables example_engine example_sources empty_world ''in'' ''out''
            [row_of example_event ''2018-11-12 02:39:55.796''])
       = Inl (AnalysisException ''Table or view not found: song_df'')"
    by (simp add: process_log_tables_def Let_def from_staging_logs_def combined_query_def
        create_song_dataframe_def example_sources_songs
        createOrReplaceTempView_def write_parquet_def empty_world_def)
  have e: "files (snd (process_log_tables example_engine example_sources empty_world ''in'' ''out''
                   [row_of example_event ''2018-11-12 02:39:55.796'']))
        (join ''out'' ''songplays/songplays.parquet'') = None"
    by (simp add: songplays_never_written empty_world_def)
  from a b c d e show ?thesis by blast
qed

section \<open>The two calls of the entry point\<close>

lemma main_etl_catalog_missing:
  assumes "song_json src (input_data_root @ ''/song_data/*/*/*/'') = None"
  shows "main_etl eng src fs =
           (Inl (AnalysisException ''Path does not exist''), create_spark_session fs)"
  by (simp add: main_etl_def process_song_data_missing [OF assms])

lemma main_etl_catalog_present:
  assumes "song_json src (input_data_root @ ''/song_data/*/*/*/'') = Some catalog"
  shows "main_etl eng src fs =
           (Inl (case log_json src (input_data_root @ ''/log_data/*/*/*/'') of
                   None \<Rightarrow> AnalysisException ''Path does not exist''
                 | Some log_df \<Rightarrow> TypeError ''col should be Column''),
            \<lparr>views = [''staging_songs'' \<mapsto> SongDF catalog,
                      ''songs'' \<mapsto> SongsTable (songs_query eng catalog),
                      ''artists'' \<mapsto> ArtistsTable (artists_query catalog)],
             files = fs(join output_data_root ''songs/songs.parquet'' \<mapsto>
                          ([''year'', ''artist_id''], SongsTable (songs_query eng catalog)),
                        join output_data_root ''artists/artists.parquet'' \<mapsto>
                          ([], ArtistsTable (artists_query catalog)))\<rparr>)"
  by (simp add: main_etl_def process_song_data_present [OF assms] process_log_data_raises
      create_spark_session_def)

lemma s3_catalog_only_songs:
  "song_json s3_catalog_only (input_data_root @ ''/song_data/*/*/*/'') = Some [example_song]"
  by (simp add: s3_catalog_only_def)

lemma s3_catalog_only_logs:
  "log_json s3_catalog_only (input_data_root @ ''/log_data/*/*/*/'') = None"
  by (simp add: s3_catalog_only_def)

lemma example_songs_query1:
  "songs_query example_engine [example_song] =
     [\<lparr>songs_row.song_id = Some ''SOUPIRU12A6D4FA1E1'',
       songs_row.artist_id = Some ''Der Kleine Dompfaff'',
       songs_row.year = Some ''1961'',
       songs_row.duration = Some 152.92\<rparr>]"
  by (simp add: songs_query_def songs_select_def year_ne_0_def example_engine_def
      decimal_cast_def digit_of_def example_song_def)

text \<open>
  Claim C6, as stated: when a source is missing, the run aborts before any table is
  written, the Song and Artist tables included. It fails for a root that holds the
  catalog and no activity log: \<open>process_song_data\<close> has written its tables before
  \<open>process_log_data\<close> reads the log (lines 192-193).
\<close>

theorem song_table_written_before_log_read_fails:
  "log_json s3_catalog_only (input_data_root @ ''/log_data/*/*/*/'') = None
   \<and> fst (main_etl example_engine s3_catalog_only no_files)
       = Inl (AnalysisException ''Path does not exist'')
   \<and> files (snd (main_etl example_engine s3_catalog_only no_files))
        (join output_data_root ''songs/songs.parquet'')
       = Some ([''year'', ''artist_id''],
               SongsTable [\<lparr>songs_row.song_id = Some ''SOUPIRU12A6D4FA1E1'',
                            songs_row.artist_id = Some ''Der Kleine Dompfaff'',
                            songs_row.year = Some ''1961'',
                            songs_row.duration = Some 152.92\<rparr>])"
  by (simp add: main_etl_catalog_present [OF s3_catalog_only_songs] s3_catalog_only_logs
      example_songs_query1 songs_artists_paths_differ)

lemma songs_query_empty: "songs_query eng [] = []"
  by (simp add: songs_query_def)

lemma artists_query_empty: "artists_query [] = []"
  by (simp add: artists_query_def)

lemma s3_log_only_songs:
  "song_json s3_log_only (input_data_root @ ''/song_data/*/*/*/'') = None"
  by (simp add: s3_log_only_def)

lemma s3_empty_dirs_songs:
  "song_json s3_empty_dirs (input_data_root @ ''/song_data/*/*/*/'') = Some []"
  by (simp add: s3_empty_dirs_def)

text \<open>
  Claim C6, amended. A source whose path pattern matches no path makes the read raise
  the engine's error, which ends the run of lines 187-193: for the catalog, before any
  table is written; for the activity log, with the catalog pattern matching, after the
  Song and Artist tables have been written, and nothing else has been written at that
  moment. A catalog pattern that matches directories holding no file is no error at the
  read: the catalog is empty, and empty Song and Artist tables are written.
\<close>

theorem main_etl_source_missing:
  "(song_json src (input_data_root @ ''/song_data/*/*/*/'') = None \<longrightarrow>
      main_etl eng src fs
        = (Inl (AnalysisException ''Path does not exist''), create_spark_session fs))
   \<and> (\<forall>catalog. song_json src (input_data_root @ ''/song_data/*/*/*/'') = Some catalog \<longrightarrow>
         files (snd (main_etl eng src fs)) =
           fs(join output_data_root ''songs/songs.parquet'' \<mapsto>
                ([''year'', ''artist_id''], SongsTable (songs_query eng catalog)),
              join output_data_root ''artists/artists.parquet'' \<mapsto>
                ([], ArtistsTable (artists_query catalog)))
         \<and> (log_json src (input_data_root @ ''/log_data/*/*/*/'') = None \<longrightarrow>
               fst (main_etl eng src fs) = Inl (AnalysisException ''Path does not exist'')))
   \<and> (song_json src (input_data_root @ ''/song_data/*/*/*/'') = Some [] \<longrightarrow>
         create_song_dataframe input_data_root src = Inr []
         \<and> files (snd (main_etl eng src fs)) (join output_data_root ''songs/songs.parquet'')
             = Some ([''year'', ''artist_id''], SongsTable [])
         \<and> files (snd (main_etl eng src fs)) (join output_data_root ''artists/artists.parquet'')
             = Some ([], ArtistsTable []))"
proof (intro conjI impI allI)
  assume "song_json src (input_data_root @ ''/song_data/*/*/*/'') = None"
  then show "main_etl eng src fs
        = (Inl (AnalysisException ''Path does not exist''), create_spark_session fs)"
    by (rule main_etl_catalog_missing)
next
  fix catalog
  assume "song_json src (input_data_root @ ''/song_data/*/*/*/'') = Some catalog"
  then show "files (snd (main_etl eng src fs)) =
           fs(join output_data_root ''songs/songs.parquet'' \<mapsto>
                ([''year'', ''artist_id''], SongsTable (songs_query eng catalog)),
              join output_data_root ''artists/artists.parquet'' \<mapsto>
                ([], ArtistsTable (artists_query catalog)))"
    by (simp add: main_etl_catalog_present)
next
  fix catalog
  assume "song_json src (input_data_root @ ''/song_data/*/*/*/'') = Some catalog"
    and "log_json src (input_data_root @ ''/log_data/*/*/*/'') = None"
  then show "fst (main_etl eng src fs) = Inl (AnalysisException ''Path does not exist'')"
    by (simp add: main_etl_catalog_present)
next
  assume "song_json src (input_data_root @ ''/song_data/*/*/*/'') = Some []"
  then show "create_song_dataframe input_data_root src = Inr []"
    by (simp add: create_song_dataframe_def)
next
  assume "song_json src (input_data_root @ ''/song_data/*/*/*/'') = Some []"
  then show "files (snd (main_etl eng src fs)) (join output_data_root ''songs/songs.parquet'')
             = Some ([''year'', ''artist_id''], SongsTable [])"
    by (simp add: main_etl_catalog_present songs_query_empty songs_artists_paths_differ)
next
  assume "song_json src (input_data_root @ ''/song_data/*/*/*/'') = Some []"
  then show "files (snd (main_etl eng src fs)) (join output_data_root ''artists/artists.parquet'')
             = Some ([], ArtistsTable [])"
    by (simp add: main_etl_catalog_present artists_query_empty)
qed

theorem main_etl_source_missing_witness:
  "song_json s3_log_only (input_data_root @ ''/song_data/*/*/*/'') = None
   \<and> main_etl example_engine s3_log_only no_files
        = (Inl (AnalysisException ''Path does not exist''), create_spark_session no_files)
   \<and> song_json s3_catalog_only (input_data_root @ ''/song_data/*/*/*/'') = Some [example_song]
   \<and> log_json s3_catalog_only (input_data_root @ ''/log_data/*/*/*/'') = None
   \<and> files (snd (main_etl example_engine s3_catalog_only no_files)) =
        no_files(join output_data_root ''songs/songs.parquet'' \<mapsto>
           ([''year'', ''artist_id''], SongsTable (songs_query example_engine [example_song])),
         join output_data_root ''artists/artists.parquet'' \<mapsto>
           ([], ArtistsTable (artists_query [example_song])))
   \<and> fst (main_etl example_engine s3_catalog_only no_files)
        = Inl (AnalysisException ''Path does not exist'')
   \<and> song_json s3_empty_dirs (input_data_root @ ''/song_data/*/*/*/'') = Some []
   \<and> create_song_dataframe input_data_root s3_empty_dirs = Inr []
   \<and> files (snd (main_etl example_engine s3_empty_dirs no_files))
        (join output_data_root ''songs/songs.parquet'')
        = Some ([''year'', ''artist_id''], SongsTable [])
   \<and> files (snd (main_etl example_engine s3_empty_dirs no_files))
        (join output_data_root ''artists/artists.parquet'')
        = Some ([], ArtistsTable [])"
  using main_etl_source_missing [of s3_log_only example_engine no_files]
        main_etl_source_missing [of s3_catalog_only example_engine no_files]
        main_etl_source_missing [of s3_empty_dirs example_engine no_files]
        s3_log_only_songs s3_catalog_only_songs s3_catalog_only_logs s3_empty_dirs_songs
  by blast

text \<open>
  Claim C9. A second run on unchanged sources, started on the output root that the
  first run left, ends with the same result and leaves every dataset of the output root
  as the first run left it; the same holds for lines 117-173 run twice on the same log
  dataframe.
\<close>

theorem main_etl_rerun_same_tables:
  "fst (main_etl eng src (files (snd (main_etl eng src fs)))) = fst (main_etl eng src fs)
   \<and> files (snd (main_etl eng src (files (snd (main_etl eng src fs)))))
       = files (snd (main_etl eng src fs))
   \<and> files (snd (process_log_tables eng src
                   (snd (process_log_tables eng src w input_data output_data log_data))
                   input_data output_data log_data))
       = files (snd (process_log_tables eng src w input_data output_data log_data))"
proof -
  have "fst (main_etl eng src (files (snd (main_etl eng src fs)))) = fst (main_etl eng src fs)
   \<and> files (snd (main_etl eng src (files (snd (main_etl eng src fs)))))
       = files (snd (main_etl eng src fs))"
  proof (cases "song_json src (input_data_root @ ''/song_data/*/*/*/'')")
    case None
    then show ?thesis
      by (simp add: main_etl_catalog_missing create_spark_session_def)
  next
    case (Some catalog)
    then show ?thesis
      by (simp add: main_etl_catalog_present songs_artists_paths_differ)
  qed
  moreover have "files (snd (process_log_tables eng src
                   (snd (process_log_tables eng src w input_data output_data log_data))
                   input_data output_data log_data))
       = files (snd (process_log_tables eng src w input_data output_data log_data))"
    by (simp add: process_log_tables_files output_paths_differ)
  ultimately show ?thesis by blast
qed

text \<open>
  The configuration step of lines 184-185 raises for every configuration file, before
  the session is created: the two calls above are not reached from \<open>main\<close>.
\<close>

lemma main_raises_before_session:
  "\<exists>e. main config environ eng src fs = (Inl e, create_spark_session fs)"
  by (simp add: main_def config_getitem_def environ_setitem_def split: option.splits)

section \<open>The identifiers of the fact rows\<close>

lemma monotonically_increasing_id_unat:
  assumes "p < 2 ^ 31" and "i < 2 ^ 33"
  shows "unat (monotonically_increasing_id p i) = p * 2 ^ 33 + i"
proof (rule of_nat_inverse)
  show "word_of_nat (p * 2 ^ 33 + i) = monotonically_increasing_id p i"
    by (simp only: monotonically_increasing_id_def push_bit_eq_mult of_nat_add of_nat_mult
        of_nat_power of_nat_numeral)
  from assms(1) have "Suc p \<le> 2 ^ 31"
    by (simp only: Suc_le_eq)
  then have "Suc p * 2 ^ 33 \<le> 2 ^ 31 * (2::nat) ^ 33"
    by (rule mult_le_mono1)
  also have "(2::nat) ^ 31 * 2 ^ 33 = 2 ^ 64"
    by (simp only: power_add [symmetric]) simp
  finally have "Suc p * 2 ^ 33 \<le> (2::nat) ^ 64" .
  moreover from assms(2) have "p * 2 ^ 33 + i < Suc p * 2 ^ 33"
    by (simp only: mult_Suc add.commute [of "2 ^ 33"] add_less_cancel_left)
  ultimately show "p * 2 ^ 33 + i < 2 ^ LENGTH(64)"
    by simp
qed

lemma div_of_block: "i < k \<Longrightarrow> (p * k + i) div k = (p::nat)"
  by simp

lemma monotonically_increasing_id_partition:
  assumes "p < 2 ^ 31" and "i < 2 ^ 33"
  shows "unat (monotonically_increasing_id p i) div 2 ^ 33 = p"
  by (simp only: monotonically_increasing_id_unat [OF assms] div_of_block [OF assms(2)])

lemma songplay_ids_of_partitions:
  "map snd (with_songplay_id parts) =
     concat (map (\<lambda>(p, rows). map (monotonically_increasing_id p) [0..<length rows])
                 (enumerate 0 parts))"
proof -
  have "map snd (map (\<lambda>(i, r). (r, monotonically_increasing_id p i)) (enumerate 0 rows))
          = map (monotonically_increasing_id p) [0..<length rows]" for p and rows :: "'a list"
  proof -
    have "map snd (map (\<lambda>(i, r). (r, monotonically_increasing_id p i)) (enumerate 0 rows))
            = map (monotonically_increasing_id p) (map fst (enumerate 0 rows))"
      by (simp only: map_map comp_def case_prod_unfold snd_conv)
    also have "map fst (enumerate 0 rows) = [0..<length rows]"
      by (simp only: map_fst_enumerate add_0)
    finally show ?thesis .
  qed
  then show ?thesis
    by (simp add: with_songplay_id_def map_concat comp_def case_prod_unfold)
qed

lemma block_ids_distinct:
  assumes "p < 2 ^ 31" and "length rows \<le> 2 ^ 33"
  shows "distinct (map (monotonically_increasing_id p) [0..<length rows])"
proof -
  have "inj_on (monotonically_increasing_id p) {0..<length rows}"
  proof (rule inj_onI)
    fix i j
    assume "i \<in> {0..<length rows}" "j \<in> {0..<length rows}"
      and eq: "monotonically_increasing_id p i = monotonically_increasing_id p j"
    then have "i < length rows" and "j < length rows"
      by simp_all
    with assms(2) have i: "i < 2 ^ 33" and j: "j < 2 ^ 33"
      by (blast intro: less_le_trans)+
    from eq have "unat (monotonically_increasing_id p i) = unat (monotonically_increasing_id p j)"
      by (rule arg_cong)
    then have "p * 2 ^ 33 + i = p * 2 ^ 33 + j"
      by (simp only: monotonically_increasing_id_unat [OF assms(1) i]
          monotonically_increasing_id_unat [OF assms(1) j])
    then show "i = j"
      by (simp only: add_left_cancel)
  qed
  then show ?thesis by (simp add: distinct_map)
qed

lemma later_ids_partition:
  assumes "n + length parts \<le> 2 ^ 31"
      and "\<forall>rows \<in> set parts. length rows \<le> 2 ^ 33"
      and "x \<in> set (concat (map (\<lambda>(p, rows). map (monotonically_increasing_id p) [0..<length rows])
                                (enumerate n parts)))"
  shows "n \<le> unat x div 2 ^ 33"
proof -
  from assms(3) obtain p rows i where
    pr: "(p, rows) \<in> set (enumerate n parts)" and i: "i < length rows"
    and x: "x = monotonically_increasing_id p i"
    by auto
  from pr have p: "n \<le> p" "p < n + length parts" and rows: "rows \<in> set parts"
    by (auto simp: in_set_enumerate_eq)
  from p(2) assms(1) have "p < 2 ^ 31"
    by (rule less_le_trans)
  moreover from rows assms(2) have "length rows \<le> 2 ^ 33"
    by blast
  with i have "i < 2 ^ 33"
    by (rule less_le_trans)
  ultimately have "unat x div 2 ^ 33 = p"
    unfolding x by (rule monotonically_increasing_id_partition)
  with p(1) show ?thesis by (simp only:)
qed

lemma ids_distinct_from:
  assumes "n + length parts \<le> 2 ^ 31"
      and "\<forall>rows \<in> set parts. length rows \<le> 2 ^ 33"
  shows "distinct (concat (map (\<lambda>(p, rows). map (monotonically_increasing_id p) [0..<length rows])
                               (enumerate n parts)))"
  using assms
proof (induction parts arbitrary: n)
  case Nil
  then show ?case by simp
next
  case (Cons rows parts)
  from Cons.prems(1) have rest1: "Suc n + length parts \<le> 2 ^ 31"
    by (simp only: list.size add_Suc_right add_Suc add_0_right One_nat_def)
  then have n: "n < 2 ^ 31"
    by linarith
  from Cons.prems(2) have len: "length rows \<le> 2 ^ 33"
    and rest2: "\<forall>rows \<in> set parts. length rows \<le> 2 ^ 33"
    by (simp_all only: list.set ball_simps insert_iff) blast+
  have block: "distinct (map (monotonically_increasing_id n) [0..<length rows])"
    using n len by (rule block_ids_distinct)
  have rest: "distinct (concat (map (\<lambda>(p, rows). map (monotonically_increasing_id p) [0..<length rows])
                               (enumerate (Suc n) parts)))"
    using rest1 rest2 by (rule Cons.IH)
  have disjoint: "x \<notin> set (concat (map (\<lambda>(p, rows). map (monotonically_increasing_id p) [0..<length rows])
                               (enumerate (Suc n) parts)))"
    if "x \<in> set (map (monotonically_increasing_id n) [0..<length rows])" for x
  proof
    assume later: "x \<in> set (concat (map (\<lambda>(p, rows). map (monotonically_increasing_id p) [0..<length rows])
                               (enumerate (Suc n) parts)))"
    from that obtain i where i: "i < length rows" and x: "x = monotonically_increasing_id n i"
      by auto
    from i len have "i < 2 ^ 33" by (rule less_le_trans)
    with n have "unat x div 2 ^ 33 = n"
      unfolding x by (rule monotonically_increasing_id_partition)
    moreover from rest1 rest2 later have "Suc n \<le> unat x div 2 ^ 33"
      by (rule later_ids_partition)
    ultimately show False by (simp only: Suc_n_not_le_n)
  qed
  have "enumerate n (rows # parts) = (n, rows) # enumerate (Suc n) parts"
    by simp
  with block rest disjoint show ?case
    by (simp only: list.map concat.simps distinct_append prod.case disjoint_iff) blast
qed

text \<open>
  Claim C8. The values of \<open>songplay_id\<close> that line 167 assigns are pairwise distinct,
  for a fact query split into at most \<open>2^31\<close> partitions of at most \<open>2^33\<close> rows
  each, the layout that the 64-bit identifier of the engine provides for.
\<close>

theorem songplay_ids_distinct:
  assumes "length (partitioning eng (map (songplays_select eng) combined_table)) \<le> 2 ^ 31"
      and "\<forall>rows \<in> set (partitioning eng (map (songplays_select eng) combined_table)).
             length rows \<le> 2 ^ 33"
  shows "distinct (map snd (songplays_query eng combined_table))"
proof -
  from assms(1)
  have "0 + length (partitioning eng (map (songplays_select eng) combined_table)) \<le> 2 ^ 31"
    by (simp only: add_0)
  from ids_distinct_from [OF this assms(2)] show ?thesis
    by (simp only: songplays_query_def songplay_ids_of_partitions)
qed

theorem songplay_ids_distinct_witness:
  "length (partitioning row_per_partition_engine
             (map (songplays_select row_per_partition_engine) example_combined)) \<le> 2 ^ 31
   \<and> map length (partitioning row_per_partition_engine
                    (map (songplays_select row_per_partition_engine) example_combined)) = [1, 1]
   \<and> distinct (map snd (songplays_query row_per_partition_engine example_combined))
   \<and> map snd (songplays_query row_per_partition_engine example_combined) = [0, 8589934592]"
proof -
  have h1: "length (partitioning row_per_partition_engine
             (map (songplays_select row_per_partition_engine) example_combined)) \<le> 2 ^ 31"
    by (simp add: row_per_partition_engine_def example_combined_def)
  have h2: "\<forall>rows \<in> set (partitioning row_per_partition_engine
                        (map (songplays_select row_per_partition_engine) example_combined)).
          length rows \<le> 2 ^ 33"
    by (simp add: row_per_partition_engine_def example_combined_def)
  have sizes: "map length (partitioning row_per_partition_engine
                    (map (songplays_select row_per_partition_engine) example_combined)) = [1, 1]"
    by (simp add: row_per_partition_engine_def example_combined_def)
  have ids: "map snd (songplays_query row_per_partition_engine example_combined) = [0, 8589934592]"
    by (simp add: songplays_query_def with_songplay_id_def monotonically_increasing_id_def
        row_per_partition_engine_def example_combined_def)
  from songplay_ids_distinct [OF h1 h2] h1 sizes ids show ?thesis
    by blast
qed

end
